theory Spec2Isabelle
  imports Complex_Main
begin

section \<open>Values, exceptions and Python helpers\<close>

text \<open>
  The router in \<^verbatim>\<open>src/app/routers/skincare.py\<close> moves JSON-serialisable Python
  values between the phase services and the session store. A value is one of the JSON
  shapes; \<open>JNull\<close> is Python's \<open>None\<close>. A dict is an association list in insertion
  order (its keys are meant to be distinct, lookups read the first binding).
  A float is given by the rational it denotes.
\<close>

datatype json =
    JNull
  | JBool bool
  | JInt int
  | JFloat rat
  | JStr string
  | JList "json list"
  | JDict "(string \<times> json) list"

text \<open>Python truthiness, as used by \<^verbatim>\<open>if not form_data\<close>.\<close>

fun truthy :: "json \<Rightarrow> bool" where
  "truthy JNull = False"
| "truthy (JBool b) = b"
| "truthy (JInt i) = (i \<noteq> 0)"
| "truthy (JFloat q) = (q \<noteq> 0)"
| "truthy (JStr s) = (s \<noteq> [])"
| "truthy (JList xs) = (xs \<noteq> [])"
| "truthy (JDict kvs) = (kvs \<noteq> [])"

text \<open>
  The two kinds of exception the handlers tell apart: the framework's
  \<^verbatim>\<open>HTTPException(status_code, detail)\<close>, and any other \<^verbatim>\<open>Exception\<close>, of which the
  router only ever reads \<^verbatim>\<open>str(e)\<close>.
\<close>

datatype exn = HTTPException nat string | Exception string

definition quoted :: "string \<Rightarrow> string" where
  "quoted s = CHR 0x27 # s @ [CHR 0x27]"

definition AttributeError :: "string \<Rightarrow> string \<Rightarrow> exn" where
  "AttributeError ty attr =
     Exception (quoted ty @ '' object has no attribute '' @ quoted attr)"

fun type_name :: "json \<Rightarrow> string" where
  "type_name JNull = ''NoneType''"
| "type_name (JBool b) = ''bool''"
| "type_name (JInt i) = ''int''"
| "type_name (JFloat q) = ''float''"
| "type_name (JStr s) = ''str''"
| "type_name (JList xs) = ''list''"
| "type_name (JDict kvs) = ''dict''"

text \<open>\<^verbatim>\<open>d.get(key, default)\<close>: only a dict has the method.\<close>

fun py_get :: "json \<Rightarrow> string \<Rightarrow> json \<Rightarrow> exn + json" where
  "py_get (JDict kvs) k d = Inr (case map_of kvs k of Some v \<Rightarrow> v | None \<Rightarrow> d)"
| "py_get j k d = Inl (AttributeError (type_name j) ''get'')"

text \<open>\<^verbatim>\<open>d.items()\<close>.\<close>

fun py_items :: "json \<Rightarrow> exn + (string \<times> json) list" where
  "py_items (JDict kvs) = Inr kvs"
| "py_items j = Inl (AttributeError (type_name j) ''items'')"

text \<open>\<^verbatim>\<open>s.startswith(p)\<close> on a string.\<close>

definition startswith :: "string \<Rightarrow> string \<Rightarrow> bool" where
  "startswith s p = (take (length p) s = p)"

text \<open>
  An uploaded file: the declared content type (absent when the part carries none) and
  the bytes that \<^verbatim>\<open>file.read()\<close> returns.
\<close>

record upload_file =
  content_type :: "string option"
  contents :: string

text \<open>\<^verbatim>\<open>file.content_type.startswith(p)\<close>: the attribute lookup fails on \<open>None\<close>.\<close>

definition content_type_startswith :: "upload_file \<Rightarrow> string \<Rightarrow> exn + bool" where
  "content_type_startswith file p =
     (case content_type file of
        None \<Rightarrow> Inl (AttributeError ''NoneType'' ''startswith'')
      | Some ct \<Rightarrow> Inr (startswith ct p))"

section \<open>The collaborators of the router\<close>

text \<open>
  \<^verbatim>\<open>phase1_service.submit_form\<close> returns a dict with the keys \<^verbatim>\<open>stored_data\<close> and
  \<^verbatim>\<open>form_index\<close>; the stored data is either an object with a \<^verbatim>\<open>dict()\<close> method
  (\<open>Model d\<close>, where \<open>d\<close> is what the method returns) or a plain value.
\<close>

datatype stored = Model json | Plain json

record submit_result =
  stored_data :: stored
  form_index :: json

fun form_dict_of :: "stored \<Rightarrow> json" where
  "form_dict_of (Model d) = d"
| "form_dict_of (Plain j) = j"

text \<open>
  \<^verbatim>\<open>phase2_service.analyze_face\<close> returns either a response object with a \<^verbatim>\<open>body\<close>
  of bytes, or the analysis itself.
\<close>

datatype analysis_result = WithBody string | Bare json

text \<open>
  The session store and the four phase services are imported by the router and
  their code is not part of it. They are parameters of the model: each operation takes the
  state of the outside world and returns its outcome (an exception or a value) together
  with the new state. The record also carries the library functions whose result the
  router passes on: \<^verbatim>\<open>json.loads(body.decode())\<close>, \<^verbatim>\<open>str\<close> of an
  \<^verbatim>\<open>HTTPException\<close>, and the constructors of the two response models.
\<close>

record 'w env =
  phase1_service_submit_form :: "json \<Rightarrow> 'w \<Rightarrow> (exn + submit_result) \<times> 'w"
  phase2_service_analyze_face :: "string \<Rightarrow> 'w \<Rightarrow> (exn + analysis_result) \<times> 'w"
  phase3_service_budget_distribution :: "json \<Rightarrow> 'w \<Rightarrow> (exn + json) \<times> 'w"
  phase4_service_create_routine :: "json \<Rightarrow> 'w \<Rightarrow> (exn + json) \<times> 'w"
  data_store_create_session :: "'w \<Rightarrow> (exn + string) \<times> 'w"
  data_store_session_exists :: "string \<Rightarrow> 'w \<Rightarrow> (exn + bool) \<times> 'w"
  data_store_save_phase_data :: "string \<Rightarrow> string \<Rightarrow> json \<Rightarrow> 'w \<Rightarrow> (exn + bool) \<times> 'w"
  data_store_load_phase_data :: "string \<Rightarrow> string \<Rightarrow> 'w \<Rightarrow> (exn + json) \<times> 'w"
  data_store_get_session_status :: "string \<Rightarrow> 'w \<Rightarrow> (exn + json) \<times> 'w"
  json_loads :: "string \<Rightarrow> exn + json"
  str_HTTPException :: "nat \<Rightarrow> string \<Rightarrow> string"
  ProductRecommendationResponse :: "json \<Rightarrow> exn + json"
  SkincareRoutineResponse :: "json \<Rightarrow> exn + json"

text \<open>\<^verbatim>\<open>str(e)\<close> for a caught exception.\<close>

fun str_exn :: "'w env \<Rightarrow> exn \<Rightarrow> string" where
  "str_exn env (HTTPException c d) = str_HTTPException env c d"
| "str_exn env (Exception m) = m"

section \<open>Running a request: state, call log, exceptions\<close>

text \<open>
  A request runs against the outside world and leaves a log of the calls it made to
  the store and the services, in order. A save is logged with what it returned.
\<close>

datatype call =
    Call_submit_form json
  | Call_analyze_face string
  | Call_budget_distribution json
  | Call_create_routine json
  | Call_create_session
  | Call_session_exists string
  | Call_save_phase_data string string json "exn + bool"
  | Call_load_phase_data string string
  | Call_get_session_status string

record 'w run =
  world :: 'w
  calls :: "call list"

definition start :: "'w \<Rightarrow> 'w run" where
  "start w = \<lparr>world = w, calls = []\<rparr>"

type_synonym ('w, 'a) action = "'w run \<Rightarrow> (exn + 'a) \<times> 'w run"

definition succeed :: "'a \<Rightarrow> ('w, 'a) action" where
  "succeed x st = (Inr x, st)"

definition raise :: "exn \<Rightarrow> ('w, 'a) action" where
  "raise e st = (Inl e, st)"

definition lift :: "exn + 'a \<Rightarrow> ('w, 'a) action" where
  "lift r st = (r, st)"

text \<open>Sequencing of two statements: an exception in the first skips the second.\<close>

definition then_do :: "('w, 'a) action \<Rightarrow> ('a \<Rightarrow> ('w, 'b) action) \<Rightarrow> ('w, 'b) action" where
  "then_do m f st = (case m st of (Inl e, st') \<Rightarrow> (Inl e, st') | (Inr x, st') \<Rightarrow> f x st')"

text \<open>A call to a collaborator, logged.\<close>

definition invoke :: "call \<Rightarrow> ('w \<Rightarrow> (exn + 'a) \<times> 'w) \<Rightarrow> ('w, 'a) action" where
  "invoke c f st =
     (case f (world st) of (r, w') \<Rightarrow> (r, \<lparr>world = w', calls = calls st @ [c]\<rparr>))"

definition save_phase_data :: "'w env \<Rightarrow> string \<Rightarrow> string \<Rightarrow> json \<Rightarrow> ('w, bool) action" where
  "save_phase_data env session_id phase payload st =
     (case data_store_save_phase_data env session_id phase payload (world st) of
        (r, w') \<Rightarrow>
          (r, \<lparr>world = w',
               calls = calls st @ [Call_save_phase_data session_id phase payload r]\<rparr>))"

text \<open>
  The handlers of phases 2, 3, 4 and of the status query:
  \<^verbatim>\<open>except HTTPException: raise\<close> followed by \<^verbatim>\<open>except Exception as e\<close>, which raises
  a 500 whose detail is the given prefix and \<^verbatim>\<open>str(e)\<close>.
\<close>

definition except_reraise_http :: "string \<Rightarrow> ('w, 'a) action \<Rightarrow> ('w, 'a) action" where
  "except_reraise_http prefix body st =
     (case body st of
        (Inl (HTTPException c d), st') \<Rightarrow> (Inl (HTTPException c d), st')
      | (Inl (Exception m), st') \<Rightarrow> (Inl (HTTPException 500 (prefix @ m)), st')
      | (Inr x, st') \<Rightarrow> (Inr x, st'))"

text \<open>
  The handler of phase 1 is \<^verbatim>\<open>except Exception as e\<close> alone, and
  \<^verbatim>\<open>HTTPException\<close> is an \<^verbatim>\<open>Exception\<close>.
\<close>

definition except_exception :: "'w env \<Rightarrow> string \<Rightarrow> ('w, 'a) action \<Rightarrow> ('w, 'a) action" where
  "except_exception env prefix body st =
     (case body st of
        (Inl e, st') \<Rightarrow> (Inl (HTTPException 500 (prefix @ str_exn env e)), st')
      | (Inr x, st') \<Rightarrow> (Inr x, st'))"

section \<open>The endpoints\<close>

text \<open>
  Phase 2 reads the analysis out of what the service returned:
  \<^verbatim>\<open>json.loads(analysis_result.body.decode())\<close> if it has a \<^verbatim>\<open>body\<close>, else the
  value itself.
\<close>

definition analysis_json_of :: "'w env \<Rightarrow> analysis_result \<Rightarrow> exn + json" where
  "analysis_json_of env analysis_result =
     (case analysis_result of
        WithBody b \<Rightarrow> json_loads env b
      | Bare j \<Rightarrow> Inr j)"

definition phase1_form_analysis :: "'w env \<Rightarrow> json \<Rightarrow> ('w, json) action" where
  "phase1_form_analysis env form_data =
     except_exception env ''Phase 1 failed: ''
       (then_do (invoke (Call_submit_form form_data) (phase1_service_submit_form env form_data))
          (\<lambda>result.
        then_do (invoke Call_create_session (data_store_create_session env))
          (\<lambda>session_id.
        let form_dict = form_dict_of (stored_data result) in
        then_do (save_phase_data env session_id ''phase1'' form_dict)
          (\<lambda>success.
        if \<not> success then raise (HTTPException 500 ''Failed to save form data'')
        else succeed (JDict
          [(''session_id'', JStr session_id),
           (''status'', JStr ''success''),
           (''message'', JStr ''Form data processed and saved successfully''),
           (''next_phase'', JStr ''Phase 2: Upload facial image for analysis''),
           (''form_index'', form_index result),
           (''data'', form_dict)])))))"

definition phase2_image_analysis :: "'w env \<Rightarrow> string \<Rightarrow> upload_file \<Rightarrow> ('w, json) action" where
  "phase2_image_analysis env session_id file =
     except_reraise_http ''Phase 2 failed: ''
       (then_do (invoke (Call_session_exists session_id) (data_store_session_exists env session_id))
          (\<lambda>found.
        if \<not> found then raise (HTTPException 404 ''Session not found. Complete Phase 1 first.'')
        else
        then_do (lift (content_type_startswith file ''image/''))
          (\<lambda>is_image.
        if \<not> is_image then raise (HTTPException 400 ''File must be an image (JPEG, PNG, etc.)'')
        else
        let image_data = contents file in
        then_do (invoke (Call_analyze_face image_data) (phase2_service_analyze_face env image_data))
          (\<lambda>analysis_result.
        then_do (lift (analysis_json_of env analysis_result))
          (\<lambda>analysis_json.
        then_do (save_phase_data env session_id ''phase2'' analysis_json)
          (\<lambda>success.
        if \<not> success then raise (HTTPException 500 ''Failed to save analysis data'')
        else succeed (JDict
          [(''session_id'', JStr session_id),
           (''status'', JStr ''success''),
           (''message'', JStr ''Image analysis completed and saved successfully''),
           (''next_phase'', JStr ''Phase 3: Generate product recommendations''),
           (''analysis'', analysis_json)])))))))"

definition phase3_product_recommendations :: "'w env \<Rightarrow> string \<Rightarrow> ('w, json) action" where
  "phase3_product_recommendations env session_id =
     except_reraise_http ''Phase 3 failed: ''
       (then_do (invoke (Call_load_phase_data session_id ''phase1'')
                   (data_store_load_phase_data env session_id ''phase1''))
          (\<lambda>form_data.
        then_do (invoke (Call_load_phase_data session_id ''phase2'')
                   (data_store_load_phase_data env session_id ''phase2''))
          (\<lambda>analysis_data.
        if \<not> truthy form_data
        then raise (HTTPException 400 ''Missing form data. Complete Phase 1 first.'')
        else if \<not> truthy analysis_data
        then raise (HTTPException 400 ''Missing image analysis. Complete Phase 2 first.'')
        else
        then_do (lift (py_get analysis_data ''ai_output'' analysis_data))
          (\<lambda>skin_analysis.
        let phase3_input = JDict [(''form_data'', form_data), (''skin_analysis'', skin_analysis)] in
        then_do (invoke (Call_budget_distribution phase3_input)
                   (phase3_service_budget_distribution env phase3_input))
          (\<lambda>recommendations.
        then_do (save_phase_data env session_id ''phase3'' recommendations)
          (\<lambda>success.
        if \<not> success then raise (HTTPException 500 ''Failed to save recommendations'')
        else lift (ProductRecommendationResponse env recommendations)))))))"

definition phase4_routine_creation :: "'w env \<Rightarrow> string \<Rightarrow> ('w, json) action" where
  "phase4_routine_creation env session_id =
     except_reraise_http ''Phase 4 failed: ''
       (then_do (invoke (Call_load_phase_data session_id ''phase1'')
                   (data_store_load_phase_data env session_id ''phase1''))
          (\<lambda>form_data.
        then_do (invoke (Call_load_phase_data session_id ''phase3'')
                   (data_store_load_phase_data env session_id ''phase3''))
          (\<lambda>recommendations.
        if \<not> truthy form_data
        then raise (HTTPException 400 ''Missing form data. Complete Phase 1 first.'')
        else if \<not> truthy recommendations
        then raise (HTTPException 400 ''Missing product recommendations. Complete Phase 3 first.'')
        else
        then_do (lift (py_get recommendations ''products'' (JDict [])))
          (\<lambda>products.
        let phase4_input = JDict [(''form_data'', form_data), (''product_recommendations'', products)] in
        then_do (invoke (Call_create_routine phase4_input)
                   (phase4_service_create_routine env phase4_input))
          (\<lambda>routine_result.
        then_do (save_phase_data env session_id ''phase4'' routine_result)
          (\<lambda>success.
        if \<not> success then raise (HTTPException 500 ''Failed to save routine'')
        else lift (SkincareRoutineResponse env routine_result)))))))"

text \<open>The \<^verbatim>\<open>if\<close>/\<^verbatim>\<open>elif\<close> chain of the status query, over \<^verbatim>\<open>phase_status.get(p, False)\<close>.\<close>

definition next_phase_of :: "json \<Rightarrow> ('w, string) action" where
  "next_phase_of phase_status =
     then_do (lift (py_get phase_status ''phase1'' (JBool False)))
       (\<lambda>p1.
     if \<not> truthy p1 then succeed ''Phase 1: Submit form data'' else
     then_do (lift (py_get phase_status ''phase2'' (JBool False)))
       (\<lambda>p2.
     if \<not> truthy p2 then succeed ''Phase 2: Upload facial image'' else
     then_do (lift (py_get phase_status ''phase3'' (JBool False)))
       (\<lambda>p3.
     if \<not> truthy p3 then succeed ''Phase 3: Generate product recommendations'' else
     then_do (lift (py_get phase_status ''phase4'' (JBool False)))
       (\<lambda>p4.
     if \<not> truthy p4 then succeed ''Phase 4: Create skincare routine''
     else succeed ''Pipeline complete!''))))"

definition get_session_status :: "'w env \<Rightarrow> string \<Rightarrow> ('w, json) action" where
  "get_session_status env session_id =
     except_reraise_http ''Status check failed: ''
       (then_do (invoke (Call_session_exists session_id) (data_store_session_exists env session_id))
          (\<lambda>found.
        if \<not> found then raise (HTTPException 404 ''Session not found'')
        else
        then_do (invoke (Call_get_session_status session_id)
                   (data_store_get_session_status env session_id))
          (\<lambda>phase_status_result.
        then_do (lift (py_get phase_status_result ''phases'' (JDict [])))
          (\<lambda>phase_status.
        then_do (lift (py_items phase_status))
          (\<lambda>items.
        let completed_phases = map fst (filter (\<lambda>(phase, completed). truthy completed) items) in
        then_do (next_phase_of phase_status)
          (\<lambda>next_phase.
        then_do (lift (py_get phase_status_result ''progress_percentage'' (JInt 0)))
          (\<lambda>progress_percentage.
        succeed (JDict
          [(''session_id'', JStr session_id),
           (''completed_phases'', JList (map JStr completed_phases)),
           (''total_phases'', JInt 4),
           (''progress_percentage'', progress_percentage),
           (''next_phase'', JStr next_phase),
           (''phase_details'', phase_status),
           (''pipeline_complete'', JBool (length completed_phases = 4))]))))))))"

text \<open>Reading a key of a returned response.\<close>

fun response_field :: "string \<Rightarrow> exn + json \<Rightarrow> json option" where
  "response_field k (Inr (JDict kvs)) = map_of kvs k"
| "response_field k r = None"

section \<open>The session store of the specification\<close>

text \<open>
  Modelled from the spec: the session store \<^verbatim>\<open>data_store\<close> (module
  \<^verbatim>\<open>connection_logic\<close>), imported by the router. Its state is the created session
  identifiers and the payloads saved under (session id, phase name). Whether the backend
  currently persists a write is part of the state, since a save reports a persistence
  failure by returning false.
\<close>

record store =
  sessions :: "string list"
  payloads :: "string \<times> string \<Rightarrow> json option"
  writable :: bool

definition phase_names :: "string list" where
  "phase_names = [''phase1'', ''phase2'', ''phase3'', ''phase4'']"

text \<open>
  Modelled from the spec: the identifier that \<^verbatim>\<open>create_session\<close> generates,
  "a fresh unique identifier" that "never collides with an existing session"; here a
  string longer than every identifier in use.
\<close>

definition fresh_id :: "string list \<Rightarrow> string" where
  "fresh_id ids = replicate (Suc (foldr max (map length ids) 0)) (CHR ''s'')"

text \<open>Modelled from the spec: \<^verbatim>\<open>create_session() -> SessionId\<close> of the store.\<close>

definition store_create_session :: "store \<Rightarrow> (exn + string) \<times> store" where
  "store_create_session s =
     (let sid = fresh_id (sessions s) in (Inr sid, s\<lparr>sessions := sid # sessions s\<rparr>))"

text \<open>
  Modelled from the spec: \<^verbatim>\<open>session_exists(id) -> bool\<close> of the store, "true iff
  \<open>id\<close> was previously created".
\<close>

definition store_session_exists :: "string \<Rightarrow> store \<Rightarrow> (exn + bool) \<times> store" where
  "store_session_exists sid s = (Inr (sid \<in> set (sessions s)), s)"

text \<open>
  Modelled from the spec: \<^verbatim>\<open>save_phase_data(id, phase_name, payload) -> bool\<close> of the
  store, which "persists \<open>payload\<close> under \<open>(id, phase_name)\<close>; overwrites if already
  present; returns false (not an exception) on any persistence failure".
\<close>

definition store_save_phase_data ::
    "string \<Rightarrow> string \<Rightarrow> json \<Rightarrow> store \<Rightarrow> (exn + bool) \<times> store" where
  "store_save_phase_data sid phase payload s =
     (if writable s
      then (Inr True, s\<lparr>payloads := (payloads s)((sid, phase) \<mapsto> payload)\<rparr>)
      else (Inr False, s))"

text \<open>
  Modelled from the spec: \<^verbatim>\<open>load_phase_data(id, phase_name)\<close> of the store, which
  "returns the previously saved payload, or an absent/empty result if never saved".
\<close>

definition store_load_phase_data :: "string \<Rightarrow> string \<Rightarrow> store \<Rightarrow> (exn + json) \<times> store" where
  "store_load_phase_data sid phase s =
     (Inr (case payloads s (sid, phase) of Some v \<Rightarrow> v | None \<Rightarrow> JNull), s)"

text \<open>
  Modelled from the spec: the number of phases of a session whose payload is present.
\<close>

definition completed_count :: "store \<Rightarrow> string \<Rightarrow> nat" where
  "completed_count s sid = length (filter (\<lambda>p. payloads s (sid, p) \<noteq> None) phase_names)"

text \<open>
  Modelled from the spec: \<^verbatim>\<open>get_session_status(id)\<close> of the store, which returns
  \<^verbatim>\<open>{phases: {phase1: bool, ..., phase4: bool}, progress_percentage: number}\<close>,
  "derived purely from presence of saved payloads;
  \<open>progress_percentage = (#completed / 4) * 100\<close>".
\<close>

definition store_get_session_status :: "string \<Rightarrow> store \<Rightarrow> (exn + json) \<times> store" where
  "store_get_session_status sid s =
     (Inr (JDict
        [(''phases'', JDict (map (\<lambda>p. (p, JBool (payloads s (sid, p) \<noteq> None))) phase_names)),
         (''progress_percentage'', JFloat (of_nat (completed_count s sid) / 4 * 100))]),
      s)"

text \<open>An environment whose store is the store of the specification.\<close>

definition with_store :: "store env \<Rightarrow> store env" where
  "with_store e = e
     \<lparr>data_store_create_session := store_create_session,
      data_store_session_exists := store_session_exists,
      data_store_save_phase_data := store_save_phase_data,
      data_store_load_phase_data := store_load_phase_data,
      data_store_get_session_status := store_get_session_status\<rparr>"

text \<open>
  A concrete environment for running the endpoints: services that return fixed
  payloads and leave the store alone, and response models that accept any dict.
\<close>

definition demo_env :: "store env" where
  "demo_env =
     \<lparr>phase1_service_submit_form =
        (\<lambda>form s. (Inr \<lparr>stored_data = Plain form, form_index = JInt 0\<rparr>, s)),
      phase2_service_analyze_face =
        (\<lambda>image s. (Inr (Bare (JDict [(''ai_output'', JDict [(''skin_type'', JStr ''oily'')])])), s)),
      phase3_service_budget_distribution =
        (\<lambda>input s. (Inr (JDict [(''products'', JDict [(''cleanser'', JStr ''gel'')])]), s)),
      phase4_service_create_routine =
        (\<lambda>input s. (Inr (JDict [(''morning'', JList [JStr ''cleanser''])]), s)),
      data_store_create_session = store_create_session,
      data_store_session_exists = store_session_exists,
      data_store_save_phase_data = store_save_phase_data,
      data_store_load_phase_data = store_load_phase_data,
      data_store_get_session_status = store_get_session_status,
      json_loads = (\<lambda>b. Inl (Exception ''Expecting value'')),
      str_HTTPException = (\<lambda>c d. d),
      ProductRecommendationResponse = (\<lambda>j. case j of JDict kvs \<Rightarrow> Inr j | _ \<Rightarrow> Inl (Exception ''argument after ** must be a mapping'')),
      SkincareRoutineResponse = (\<lambda>j. case j of JDict kvs \<Rightarrow> Inr j | _ \<Rightarrow> Inl (Exception ''argument after ** must be a mapping''))\<rparr>"

text \<open>An empty store, and stores in which a session has reached a given point.\<close>

definition empty_store :: store where
  "empty_store = \<lparr>sessions = [], payloads = (\<lambda>k. None), writable = True\<rparr>"

definition store_of :: "string \<Rightarrow> (string \<times> json) list \<Rightarrow> bool \<Rightarrow> store" where
  "store_of sid saved ok =
     \<lparr>sessions = [sid], payloads = (\<lambda>(i, p). if i = sid then map_of saved p else None),
      writable = ok\<rparr>"


definition demo_form :: json where
  "demo_form = JDict [(''skin_type'', JStr ''oily'')]"

definition demo_analysis :: json where
  "demo_analysis = JDict [(''acne'', JBool True)]"

definition demo_recommendations :: json where
  "demo_recommendations = JDict [(''products'', JDict [(''cleanser'', JStr ''gel'')])]"

section \<open>The status query as the specification words it\<close>

text \<open>
  The specification derives \<open>next_phase\<close> by scanning the completion flags in the fixed
  order 1, 2, 3, 4 and returning the label of the first incomplete phase, or a "complete"
  marker. The labels are the router's.
\<close>

definition phase_labels :: "(string \<times> string) list" where
  "phase_labels =
     [(''phase1'', ''Phase 1: Submit form data''),
      (''phase2'', ''Phase 2: Upload facial image''),
      (''phase3'', ''Phase 3: Generate product recommendations''),
      (''phase4'', ''Phase 4: Create skincare routine'')]"

fun first_incomplete :: "(string \<Rightarrow> bool) \<Rightarrow> (string \<times> string) list \<Rightarrow> string" where
  "first_incomplete is_done [] = ''Pipeline complete!''"
| "first_incomplete is_done ((p, label) # rest) =
     (if \<not> is_done p then label else first_incomplete is_done rest)"

text \<open>The completion flag of a phase in the flags the store reported; a missing flag is false.\<close>

definition flag_of :: "(string \<times> json) list \<Rightarrow> string \<Rightarrow> bool" where
  "flag_of flags p = (case map_of flags p of Some v \<Rightarrow> truthy v | None \<Rightarrow> False)"

section \<open>Auxiliary facts\<close>

lemmas run_defs = then_do_def invoke_def save_phase_data_def lift_def raise_def succeed_def
  except_reraise_http_def except_exception_def start_def Let_def

lemmas store_defs = with_store_def store_create_session_def store_session_exists_def
  store_save_phase_data_def store_load_phase_data_def store_get_session_status_def

lemmas demo_defs = demo_env_def empty_store_def store_of_def demo_form_def demo_analysis_def
  demo_recommendations_def

lemmas outcome_splits = option.splits prod.splits sum.splits exn.splits if_splits

lemma length_le_foldr_max: "x \<in> set ids \<Longrightarrow> length x \<le> foldr max (map length ids) 0"
  by (induction ids) (auto simp: max.coboundedI2)

lemma fresh_id_fresh: "fresh_id ids \<notin> set ids"
proof
  assume "fresh_id ids \<in> set ids"
  then have "length (fresh_id ids) \<le> foldr max (map length ids) 0"
    by (rule length_le_foldr_max)
  then show False
    by (simp add: fresh_id_def)
qed

lemma completed_count_card:
  "completed_count s sid = card {p \<in> set phase_names. payloads s (sid, p) \<noteq> None}"
proof -
  have "distinct phase_names"
    by (simp add: phase_names_def)
  then have "length (filter (\<lambda>p. payloads s (sid, p) \<noteq> None) phase_names)
      = card ({p. payloads s (sid, p) \<noteq> None} \<inter> set phase_names)"
    by (rule distinct_length_filter)
  moreover have "{p. payloads s (sid, p) \<noteq> None} \<inter> set phase_names
      = {p \<in> set phase_names. payloads s (sid, p) \<noteq> None}"
    by blast
  ultimately show ?thesis
    by (simp add: completed_count_def)
qed

lemma next_phase_of_flags:
  "next_phase_of (JDict flags) st = (Inr (first_incomplete (flag_of flags) phase_labels), st)"
  by (simp add: next_phase_of_def run_defs phase_labels_def flag_of_def split: option.splits)

section \<open>Claims\<close>

text \<open>
  C1. Phase 2 with an unknown session id fails with 404 "Session not found"; phase 3 and
  phase 4, when the store returns no (or a falsy) payload for a required predecessor phase,
  fail with the 400 error that names the first missing phase. In each case the request
  made no call but the reads shown in the log: nothing was saved and no service ran.
\<close>

theorem missing_prerequisite_fails_without_save:
  "(data_store_session_exists env sid w = (Inr False, w') \<longrightarrow>
      phase2_image_analysis env sid upload (start w) =
        (Inl (HTTPException 404 ''Session not found. Complete Phase 1 first.''),
         \<lparr>world = w', calls = [Call_session_exists sid]\<rparr>))
   \<and> (data_store_load_phase_data env sid ''phase1'' w = (Inr a, w1) \<and>
      data_store_load_phase_data env sid ''phase2'' w1 = (Inr b, w2) \<and> \<not> truthy a \<longrightarrow>
      phase3_product_recommendations env sid (start w) =
        (Inl (HTTPException 400 ''Missing form data. Complete Phase 1 first.''),
         \<lparr>world = w2,
          calls = [Call_load_phase_data sid ''phase1'', Call_load_phase_data sid ''phase2'']\<rparr>))
   \<and> (data_store_load_phase_data env sid ''phase1'' w = (Inr a, w1) \<and>
      data_store_load_phase_data env sid ''phase2'' w1 = (Inr b, w2) \<and>
      truthy a \<and> \<not> truthy b \<longrightarrow>
      phase3_product_recommendations env sid (start w) =
        (Inl (HTTPException 400 ''Missing image analysis. Complete Phase 2 first.''),
         \<lparr>world = w2,
          calls = [Call_load_phase_data sid ''phase1'', Call_load_phase_data sid ''phase2'']\<rparr>))
   \<and> (data_store_load_phase_data env sid ''phase1'' w = (Inr a, w1) \<and>
      data_store_load_phase_data env sid ''phase3'' w1 = (Inr c, w3) \<and> \<not> truthy a \<longrightarrow>
      phase4_routine_creation env sid (start w) =
        (Inl (HTTPException 400 ''Missing form data. Complete Phase 1 first.''),
         \<lparr>world = w3,
          calls = [Call_load_phase_data sid ''phase1'', Call_load_phase_data sid ''phase3'']\<rparr>))
   \<and> (data_store_load_phase_data env sid ''phase1'' w = (Inr a, w1) \<and>
      data_store_load_phase_data env sid ''phase3'' w1 = (Inr c, w3) \<and>
      truthy a \<and> \<not> truthy c \<longrightarrow>
      phase4_routine_creation env sid (start w) =
        (Inl (HTTPException 400 ''Missing product recommendations. Complete Phase 3 first.''),
         \<lparr>world = w3,
          calls = [Call_load_phase_data sid ''phase1'', Call_load_phase_data sid ''phase3'']\<rparr>))"
  by (simp add: phase2_image_analysis_def phase3_product_recommendations_def
      phase4_routine_creation_def run_defs)

text \<open>
  Witness for C1, on the store of the specification: phase 2 for a session that was never
  created; phase 3 and phase 4 for a session with nothing saved; phase 3 and phase 4 for a
  session with only phase 1 saved.
\<close>

theorem missing_prerequisite_fails_without_save_witness:
  "data_store_session_exists demo_env ''nobody'' empty_store = (Inr False, empty_store)
   \<and> phase2_image_analysis demo_env ''nobody''
        \<lparr>content_type = Some ''image/png'', contents = ''img''\<rparr> (start empty_store) =
        (Inl (HTTPException 404 ''Session not found. Complete Phase 1 first.''),
         \<lparr>world = empty_store, calls = [Call_session_exists ''nobody'']\<rparr>)
   \<and> data_store_load_phase_data demo_env ''s'' ''phase1'' (store_of ''s'' [] True)
        = (Inr JNull, store_of ''s'' [] True)
   \<and> data_store_load_phase_data demo_env ''s'' ''phase2'' (store_of ''s'' [] True)
        = (Inr JNull, store_of ''s'' [] True)
   \<and> data_store_load_phase_data demo_env ''s'' ''phase3'' (store_of ''s'' [] True)
        = (Inr JNull, store_of ''s'' [] True)
   \<and> \<not> truthy JNull
   \<and> phase3_product_recommendations demo_env ''s'' (start (store_of ''s'' [] True)) =
        (Inl (HTTPException 400 ''Missing form data. Complete Phase 1 first.''),
         \<lparr>world = store_of ''s'' [] True,
          calls = [Call_load_phase_data ''s'' ''phase1'', Call_load_phase_data ''s'' ''phase2'']\<rparr>)
   \<and> phase4_routine_creation demo_env ''s'' (start (store_of ''s'' [] True)) =
        (Inl (HTTPException 400 ''Missing form data. Complete Phase 1 first.''),
         \<lparr>world = store_of ''s'' [] True,
          calls = [Call_load_phase_data ''s'' ''phase1'', Call_load_phase_data ''s'' ''phase3'']\<rparr>)
   \<and> data_store_load_phase_data demo_env ''s'' ''phase1''
        (store_of ''s'' [(''phase1'', demo_form)] True)
        = (Inr demo_form, store_of ''s'' [(''phase1'', demo_form)] True)
   \<and> data_store_load_phase_data demo_env ''s'' ''phase2''
        (store_of ''s'' [(''phase1'', demo_form)] True)
        = (Inr JNull, store_of ''s'' [(''phase1'', demo_form)] True)
   \<and> data_store_load_phase_data demo_env ''s'' ''phase3''
        (store_of ''s'' [(''phase1'', demo_form)] True)
        = (Inr JNull, store_of ''s'' [(''phase1'', demo_form)] True)
   \<and> truthy demo_form
   \<and> phase3_product_recommendations demo_env ''s''
        (start (store_of ''s'' [(''phase1'', demo_form)] True)) =
        (Inl (HTTPException 400 ''Missing image analysis. Complete Phase 2 first.''),
         \<lparr>world = store_of ''s'' [(''phase1'', demo_form)] True,
          calls = [Call_load_phase_data ''s'' ''phase1'', Call_load_phase_data ''s'' ''phase2'']\<rparr>)
   \<and> phase4_routine_creation demo_env ''s''
        (start (store_of ''s'' [(''phase1'', demo_form)] True)) =
        (Inl (HTTPException 400 ''Missing product recommendations. Complete Phase 3 first.''),
         \<lparr>world = store_of ''s'' [(''phase1'', demo_form)] True,
          calls = [Call_load_phase_data ''s'' ''phase1'', Call_load_phase_data ''s'' ''phase3'']\<rparr>)"
proof -
  let ?s0 = "store_of ''s'' [] True"
  let ?s1 = "store_of ''s'' [(''phase1'', demo_form)] True"
  have ex: "data_store_session_exists demo_env ''nobody'' empty_store = (Inr False, empty_store)"
    by (simp add: demo_defs store_defs)
  have l0: "data_store_load_phase_data demo_env ''s'' ''phase1'' ?s0 = (Inr JNull, ?s0)"
    "data_store_load_phase_data demo_env ''s'' ''phase2'' ?s0 = (Inr JNull, ?s0)"
    "data_store_load_phase_data demo_env ''s'' ''phase3'' ?s0 = (Inr JNull, ?s0)"
    by (simp_all add: demo_defs store_defs)
  have l1: "data_store_load_phase_data demo_env ''s'' ''phase1'' ?s1 = (Inr demo_form, ?s1)"
    "data_store_load_phase_data demo_env ''s'' ''phase2'' ?s1 = (Inr JNull, ?s1)"
    "data_store_load_phase_data demo_env ''s'' ''phase3'' ?s1 = (Inr JNull, ?s1)"
    by (simp_all add: demo_defs store_defs)
  have t: "truthy demo_form" "\<not> truthy JNull"
    by (simp_all add: demo_form_def)
  note inst0 = missing_prerequisite_fails_without_save
    [where env = demo_env and sid = "''nobody''" and w = empty_store and w' = empty_store
       and upload = "\<lparr>content_type = Some ''image/png'', contents = ''img''\<rparr>"]
  note inst1 = missing_prerequisite_fails_without_save
    [where env = demo_env and sid = "''s''" and w = ?s0 and ?w1.0 = ?s0 and ?w2.0 = ?s0
       and ?w3.0 = ?s0 and a = JNull and b = JNull and c = JNull]
  note inst2 = missing_prerequisite_fails_without_save
    [where env = demo_env and sid = "''s''" and w = ?s1 and ?w1.0 = ?s1 and ?w2.0 = ?s1
       and ?w3.0 = ?s1 and a = demo_form and b = JNull and c = JNull]
  show ?thesis
    using ex l0 l1 t inst0 inst1 inst2 by simp
qed


text \<open>
  Counterexample to C2 as stated: a successful phase 3 call whose response is the
  recommendation payload and has no session id in it.
\<close>

theorem phase3_response_lacks_session_id:
  "fst (phase3_product_recommendations demo_env ''s''
          (start (store_of ''s'' [(''phase1'', demo_form), (''phase2'', demo_analysis)] True)))
     = Inr (JDict [(''products'', JDict [(''cleanser'', JStr ''gel'')])])
   \<and> response_field ''session_id''
        (fst (phase3_product_recommendations demo_env ''s''
          (start (store_of ''s'' [(''phase1'', demo_form), (''phase2'', demo_analysis)] True))))
     = None"
  by (simp add: phase3_product_recommendations_def run_defs demo_defs store_defs)

text \<open>
  C2, amended. A successful call of phase 1 or phase 2 returns a dict with the session id,
  the status marker "success", the name of the next phase and the payload the phase
  produced and saved. A successful call of phase 3 or phase 4 returns the response model
  built from the payload of that phase's service alone, after that payload was saved.
\<close>

theorem successful_phase_responses:
  "(fst (phase1_form_analysis env form (start w)) = Inr r \<longrightarrow>
      (\<exists>res w1 sid w2.
         phase1_service_submit_form env form w = (Inr res, w1) \<and>
         data_store_create_session env w1 = (Inr sid, w2) \<and>
         fst (data_store_save_phase_data env sid ''phase1'' (form_dict_of (stored_data res)) w2)
           = Inr True \<and>
         r = JDict
          [(''session_id'', JStr sid),
           (''status'', JStr ''success''),
           (''message'', JStr ''Form data processed and saved successfully''),
           (''next_phase'', JStr ''Phase 2: Upload facial image for analysis''),
           (''form_index'', form_index res),
           (''data'', form_dict_of (stored_data res))]))
   \<and> (fst (phase2_image_analysis env sid upload (start w)) = Inr r \<longrightarrow>
      (\<exists>w1 ar w2 analysis.
         data_store_session_exists env sid w = (Inr True, w1) \<and>
         phase2_service_analyze_face env (contents upload) w1 = (Inr ar, w2) \<and>
         analysis_json_of env ar = Inr analysis \<and>
         fst (data_store_save_phase_data env sid ''phase2'' analysis w2) = Inr True \<and>
         r = JDict
          [(''session_id'', JStr sid),
           (''status'', JStr ''success''),
           (''message'', JStr ''Image analysis completed and saved successfully''),
           (''next_phase'', JStr ''Phase 3: Generate product recommendations''),
           (''analysis'', analysis)]))
   \<and> (fst (phase3_product_recommendations env sid (start w)) = Inr r \<longrightarrow>
      (\<exists>fd w1 ad w2 skin recs w3.
         data_store_load_phase_data env sid ''phase1'' w = (Inr fd, w1) \<and>
         data_store_load_phase_data env sid ''phase2'' w1 = (Inr ad, w2) \<and>
         py_get ad ''ai_output'' ad = Inr skin \<and>
         phase3_service_budget_distribution env
           (JDict [(''form_data'', fd), (''skin_analysis'', skin)]) w2 = (Inr recs, w3) \<and>
         fst (data_store_save_phase_data env sid ''phase3'' recs w3) = Inr True \<and>
         ProductRecommendationResponse env recs = Inr r))
   \<and> (fst (phase4_routine_creation env sid (start w)) = Inr r \<longrightarrow>
      (\<exists>fd w1 recs w2 products routine w3.
         data_store_load_phase_data env sid ''phase1'' w = (Inr fd, w1) \<and>
         data_store_load_phase_data env sid ''phase3'' w1 = (Inr recs, w2) \<and>
         py_get recs ''products'' (JDict []) = Inr products \<and>
         phase4_service_create_routine env
           (JDict [(''form_data'', fd), (''product_recommendations'', products)]) w2
           = (Inr routine, w3) \<and>
         fst (data_store_save_phase_data env sid ''phase4'' routine w3) = Inr True \<and>
         SkincareRoutineResponse env routine = Inr r))"
proof (intro conjI impI)
  assume "fst (phase1_form_analysis env form (start w)) = Inr r"
  then show "\<exists>res w1 sid w2.
         phase1_service_submit_form env form w = (Inr res, w1) \<and>
         data_store_create_session env w1 = (Inr sid, w2) \<and>
         fst (data_store_save_phase_data env sid ''phase1'' (form_dict_of (stored_data res)) w2)
           = Inr True \<and>
         r = JDict
          [(''session_id'', JStr sid),
           (''status'', JStr ''success''),
           (''message'', JStr ''Form data processed and saved successfully''),
           (''next_phase'', JStr ''Phase 2: Upload facial image for analysis''),
           (''form_index'', form_index res),
           (''data'', form_dict_of (stored_data res))]"
    by (auto simp add: phase1_form_analysis_def run_defs split: outcome_splits)
next
  assume "fst (phase2_image_analysis env sid upload (start w)) = Inr r"
  then show "\<exists>w1 ar w2 analysis.
         data_store_session_exists env sid w = (Inr True, w1) \<and>
         phase2_service_analyze_face env (contents upload) w1 = (Inr ar, w2) \<and>
         analysis_json_of env ar = Inr analysis \<and>
         fst (data_store_save_phase_data env sid ''phase2'' analysis w2) = Inr True \<and>
         r = JDict
          [(''session_id'', JStr sid),
           (''status'', JStr ''success''),
           (''message'', JStr ''Image analysis completed and saved successfully''),
           (''next_phase'', JStr ''Phase 3: Generate product recommendations''),
           (''analysis'', analysis)]"
    by (auto simp add: phase2_image_analysis_def run_defs content_type_startswith_def
        split: outcome_splits)
next
  assume "fst (phase3_product_recommendations env sid (start w)) = Inr r"
  then show "\<exists>fd w1 ad w2 skin recs w3.
         data_store_load_phase_data env sid ''phase1'' w = (Inr fd, w1) \<and>
         data_store_load_phase_data env sid ''phase2'' w1 = (Inr ad, w2) \<and>
         py_get ad ''ai_output'' ad = Inr skin \<and>
         phase3_service_budget_distribution env
           (JDict [(''form_data'', fd), (''skin_analysis'', skin)]) w2 = (Inr recs, w3) \<and>
         fst (data_store_save_phase_data env sid ''phase3'' recs w3) = Inr True \<and>
         ProductRecommendationResponse env recs = Inr r"
    by (auto simp add: phase3_product_recommendations_def run_defs split: outcome_splits)
next
  assume "fst (phase4_routine_creation env sid (start w)) = Inr r"
  then show "\<exists>fd w1 recs w2 products routine w3.
         data_store_load_phase_data env sid ''phase1'' w = (Inr fd, w1) \<and>
         data_store_load_phase_data env sid ''phase3'' w1 = (Inr recs, w2) \<and>
         py_get recs ''products'' (JDict []) = Inr products \<and>
         phase4_service_create_routine env
           (JDict [(''form_data'', fd), (''product_recommendations'', products)]) w2
           = (Inr routine, w3) \<and>
         fst (data_store_save_phase_data env sid ''phase4'' routine w3) = Inr True \<and>
         SkincareRoutineResponse env routine = Inr r"
    by (auto simp add: phase4_routine_creation_def run_defs split: outcome_splits)
qed

text \<open>
  Witness for the amended C2: the four phases run in turn on the store of the
  specification, each from a store in which its predecessors are saved.
\<close>

theorem successful_phase_responses_witness:
  "fst (phase1_form_analysis demo_env demo_form (start empty_store)) =
      Inr (JDict
          [(''session_id'', JStr ''s''),
           (''status'', JStr ''success''),
           (''message'', JStr ''Form data processed and saved successfully''),
           (''next_phase'', JStr ''Phase 2: Upload facial image for analysis''),
           (''form_index'', JInt 0),
           (''data'', demo_form)])
   \<and> (\<exists>res w1 sid w2.
         phase1_service_submit_form demo_env demo_form empty_store = (Inr res, w1) \<and>
         data_store_create_session demo_env w1 = (Inr sid, w2) \<and>
         fst (data_store_save_phase_data demo_env sid ''phase1''
                (form_dict_of (stored_data res)) w2) = Inr True \<and>
         JDict
          [(''session_id'', JStr ''s''),
           (''status'', JStr ''success''),
           (''message'', JStr ''Form data processed and saved successfully''),
           (''next_phase'', JStr ''Phase 2: Upload facial image for analysis''),
           (''form_index'', JInt 0),
           (''data'', demo_form)] = JDict
          [(''session_id'', JStr sid),
           (''status'', JStr ''success''),
           (''message'', JStr ''Form data processed and saved successfully''),
           (''next_phase'', JStr ''Phase 2: Upload facial image for analysis''),
           (''form_index'', form_index res),
           (''data'', form_dict_of (stored_data res))])
   \<and> fst (phase2_image_analysis demo_env ''s''
            \<lparr>content_type = Some ''image/png'', contents = ''img''\<rparr>
            (start (store_of ''s'' [(''phase1'', demo_form)] True))) =
      Inr (JDict
          [(''session_id'', JStr ''s''),
           (''status'', JStr ''success''),
           (''message'', JStr ''Image analysis completed and saved successfully''),
           (''next_phase'', JStr ''Phase 3: Generate product recommendations''),
           (''analysis'', JDict [(''ai_output'', JDict [(''skin_type'', JStr ''oily'')])])])
   \<and> (\<exists>w1 ar w2 analysis.
         data_store_session_exists demo_env ''s'' (store_of ''s'' [(''phase1'', demo_form)] True)
           = (Inr True, w1) \<and>
         phase2_service_analyze_face demo_env
           (contents \<lparr>content_type = Some ''image/png'', contents = ''img''\<rparr>) w1
           = (Inr ar, w2) \<and>
         analysis_json_of demo_env ar = Inr analysis \<and>
         fst (data_store_save_phase_data demo_env ''s'' ''phase2'' analysis w2) = Inr True \<and>
         JDict
          [(''session_id'', JStr ''s''),
           (''status'', JStr ''success''),
           (''message'', JStr ''Image analysis completed and saved successfully''),
           (''next_phase'', JStr ''Phase 3: Generate product recommendations''),
           (''analysis'', JDict [(''ai_output'', JDict [(''skin_type'', JStr ''oily'')])])]
         = JDict
          [(''session_id'', JStr ''s''),
           (''status'', JStr ''success''),
           (''message'', JStr ''Image analysis completed and saved successfully''),
           (''next_phase'', JStr ''Phase 3: Generate product recommendations''),
           (''analysis'', analysis)])
   \<and> fst (phase3_product_recommendations demo_env ''s''
            (start (store_of ''s'' [(''phase1'', demo_form), (''phase2'', demo_analysis)] True))) =
      Inr demo_recommendations
   \<and> (\<exists>fd w1 ad w2 skin recs w3.
         data_store_load_phase_data demo_env ''s'' ''phase1''
           (store_of ''s'' [(''phase1'', demo_form), (''phase2'', demo_analysis)] True)
           = (Inr fd, w1) \<and>
         data_store_load_phase_data demo_env ''s'' ''phase2'' w1 = (Inr ad, w2) \<and>
         py_get ad ''ai_output'' ad = Inr skin \<and>
         phase3_service_budget_distribution demo_env
           (JDict [(''form_data'', fd), (''skin_analysis'', skin)]) w2 = (Inr recs, w3) \<and>
         fst (data_store_save_phase_data demo_env ''s'' ''phase3'' recs w3) = Inr True \<and>
         ProductRecommendationResponse demo_env recs = Inr demo_recommendations)
   \<and> fst (phase4_routine_creation demo_env ''s''
            (start (store_of ''s''
               [(''phase1'', demo_form), (''phase3'', demo_recommendations)] True))) =
      Inr (JDict [(''morning'', JList [JStr ''cleanser''])])
   \<and> (\<exists>fd w1 recs w2 products routine w3.
         data_store_load_phase_data demo_env ''s'' ''phase1''
           (store_of ''s'' [(''phase1'', demo_form), (''phase3'', demo_recommendations)] True)
           = (Inr fd, w1) \<and>
         data_store_load_phase_data demo_env ''s'' ''phase3'' w1 = (Inr recs, w2) \<and>
         py_get recs ''products'' (JDict []) = Inr products \<and>
         phase4_service_create_routine demo_env
           (JDict [(''form_data'', fd), (''product_recommendations'', products)]) w2
           = (Inr routine, w3) \<and>
         fst (data_store_save_phase_data demo_env ''s'' ''phase4'' routine w3) = Inr True \<and>
         SkincareRoutineResponse demo_env routine
           = Inr (JDict [(''morning'', JList [JStr ''cleanser''])]))"
proof -
  let ?up = "\<lparr>content_type = Some ''image/png'', contents = ''img''\<rparr>"
  let ?s1 = "store_of ''s'' [(''phase1'', demo_form)] True"
  let ?s2 = "store_of ''s'' [(''phase1'', demo_form), (''phase2'', demo_analysis)] True"
  let ?s3 = "store_of ''s'' [(''phase1'', demo_form), (''phase3'', demo_recommendations)] True"
  have h1: "fst (phase1_form_analysis demo_env demo_form (start empty_store)) =
      Inr (JDict
          [(''session_id'', JStr ''s''),
           (''status'', JStr ''success''),
           (''message'', JStr ''Form data processed and saved successfully''),
           (''next_phase'', JStr ''Phase 2: Upload facial image for analysis''),
           (''form_index'', JInt 0),
           (''data'', demo_form)])"
    by (simp add: phase1_form_analysis_def run_defs demo_defs store_defs fresh_id_def)
  have h2: "fst (phase2_image_analysis demo_env ''s'' ?up (start ?s1)) =
      Inr (JDict
          [(''session_id'', JStr ''s''),
           (''status'', JStr ''success''),
           (''message'', JStr ''Image analysis completed and saved successfully''),
           (''next_phase'', JStr ''Phase 3: Generate product recommendations''),
           (''analysis'', JDict [(''ai_output'', JDict [(''skin_type'', JStr ''oily'')])])])"
    by (simp add: phase2_image_analysis_def run_defs demo_defs store_defs
        content_type_startswith_def startswith_def analysis_json_of_def)
  have h3: "fst (phase3_product_recommendations demo_env ''s'' (start ?s2)) =
      Inr demo_recommendations"
    by (simp add: phase3_product_recommendations_def run_defs demo_defs store_defs)
  have h4: "fst (phase4_routine_creation demo_env ''s'' (start ?s3)) =
      Inr (JDict [(''morning'', JList [JStr ''cleanser''])])"
    by (simp add: phase4_routine_creation_def run_defs demo_defs store_defs)
  note c1 = successful_phase_responses
    [where env = demo_env and form = demo_form and w = empty_store,
      THEN conjunct1, rule_format, OF h1]
  note c2 = successful_phase_responses
    [where env = demo_env and sid = "''s''" and upload = ?up and w = ?s1,
      THEN conjunct2, THEN conjunct1, rule_format, OF h2]
  note c3 = successful_phase_responses
    [where env = demo_env and sid = "''s''" and w = ?s2,
      THEN conjunct2, THEN conjunct2, THEN conjunct1, rule_format, OF h3]
  note c4 = successful_phase_responses
    [where env = demo_env and sid = "''s''" and w = ?s3,
      THEN conjunct2, THEN conjunct2, THEN conjunct2, rule_format, OF h4]
  from h1 c1 h2 c2 h3 c3 h4 c4 show ?thesis
    by (intro conjI)
qed

text \<open>
  C3. The claim fails in phase 1, whose only handler is the catch-all: when the save
  returns false, the 500 "Failed to save form data" raised inside the \<^verbatim>\<open>try\<close> is caught
  and raised again as "Phase 1 failed: " followed by \<^verbatim>\<open>str\<close> of that exception, whatever
  \<^verbatim>\<open>str\<close> gives. The detail that reaches the client is not the one that was raised.
\<close>

theorem phase1_rewraps_storage_failure:
  "\<forall>f. fst (phase1_form_analysis (demo_env\<lparr>str_HTTPException := f\<rparr>) demo_form
             (start (empty_store\<lparr>writable := False\<rparr>)))
        = Inl (HTTPException 500 (''Phase 1 failed: '' @ f 500 ''Failed to save form data''))
      \<and> ''Phase 1 failed: '' @ f 500 ''Failed to save form data'' \<noteq> ''Failed to save form data''"
  by (simp add: phase1_form_analysis_def run_defs demo_defs store_defs)

text \<open>
  C4. For a session that exists, an upload whose declared content type does not start
  with "image/" is answered with the 400 "File must be an image", whatever the bytes of
  the file; the request called nothing but \<^verbatim>\<open>session_exists\<close>.
\<close>

theorem phase2_rejects_non_image:
  assumes "data_store_session_exists env sid w = (Inr True, w')"
    and "content_type upload = Some ct"
    and "\<not> startswith ct ''image/''"
  shows "phase2_image_analysis env sid upload (start w) =
      (Inl (HTTPException 400 ''File must be an image (JPEG, PNG, etc.)''),
       \<lparr>world = w', calls = [Call_session_exists sid]\<rparr>)"
  using assms by (simp add: phase2_image_analysis_def run_defs content_type_startswith_def)

theorem phase2_rejects_non_image_witness:
  "data_store_session_exists demo_env ''s'' (store_of ''s'' [(''phase1'', demo_form)] True)
     = (Inr True, store_of ''s'' [(''phase1'', demo_form)] True)
   \<and> content_type \<lparr>content_type = Some ''application/pdf'', contents = ''%PDF''\<rparr>
     = Some ''application/pdf''
   \<and> \<not> startswith ''application/pdf'' ''image/''
   \<and> phase2_image_analysis demo_env ''s''
        \<lparr>content_type = Some ''application/pdf'', contents = ''%PDF''\<rparr>
        (start (store_of ''s'' [(''phase1'', demo_form)] True)) =
      (Inl (HTTPException 400 ''File must be an image (JPEG, PNG, etc.)''),
       \<lparr>world = store_of ''s'' [(''phase1'', demo_form)] True,
        calls = [Call_session_exists ''s'']\<rparr>)"
proof -
  let ?s1 = "store_of ''s'' [(''phase1'', demo_form)] True"
  let ?up = "\<lparr>content_type = Some ''application/pdf'', contents = ''%PDF''\<rparr>"
  have a: "data_store_session_exists demo_env ''s'' ?s1 = (Inr True, ?s1)"
    by (simp add: demo_defs store_defs)
  have b: "content_type ?up = Some ''application/pdf''"
    by simp
  have c: "\<not> startswith ''application/pdf'' ''image/''"
    by (simp add: startswith_def)
  from a b c phase2_rejects_non_image [OF a b c] show ?thesis
    by simp
qed


text \<open>
  C5. For a session that exists, when the store reports its status with a dict of phase
  flags, the status query answers with \<open>next_phase\<close> equal to the label of the first
  phase, in the order phase1, phase2, phase3, phase4, whose flag is not set, or
  "Pipeline complete!" when all four are set. The request called \<^verbatim>\<open>session_exists\<close>
  and \<^verbatim>\<open>get_session_status\<close> and nothing else: it wrote nothing.
\<close>

theorem status_next_phase_first_incomplete:
  assumes "data_store_session_exists env sid w = (Inr True, w1)"
    and "data_store_get_session_status env sid w1 = (Inr status, w2)"
    and "py_get status ''phases'' (JDict []) = Inr (JDict flags)"
  shows "\<exists>r. get_session_status env sid (start w) =
           (Inr r, \<lparr>world = w2,
                    calls = [Call_session_exists sid, Call_get_session_status sid]\<rparr>)
         \<and> response_field ''next_phase'' (Inr r) =
             Some (JStr (first_incomplete (flag_of flags) phase_labels))"
proof -
  obtain kvs where st: "status = JDict kvs"
    using assms(3) by (cases status) simp_all
  show ?thesis
    using assms by (simp add: get_session_status_def run_defs st next_phase_of_flags)
qed

text \<open>Witness for C5: a session with phases 1 and 2 saved; the next phase is phase 3.\<close>

theorem status_next_phase_first_incomplete_witness:
  "data_store_session_exists demo_env ''s''
      (store_of ''s'' [(''phase1'', demo_form), (''phase2'', demo_analysis)] True)
     = (Inr True, store_of ''s'' [(''phase1'', demo_form), (''phase2'', demo_analysis)] True)
   \<and> data_store_get_session_status demo_env ''s''
      (store_of ''s'' [(''phase1'', demo_form), (''phase2'', demo_analysis)] True)
     = (Inr (JDict
          [(''phases'', JDict [(''phase1'', JBool True), (''phase2'', JBool True),
                              (''phase3'', JBool False), (''phase4'', JBool False)]),
           (''progress_percentage'', JFloat 50)]),
        store_of ''s'' [(''phase1'', demo_form), (''phase2'', demo_analysis)] True)
   \<and> py_get (JDict
          [(''phases'', JDict [(''phase1'', JBool True), (''phase2'', JBool True),
                              (''phase3'', JBool False), (''phase4'', JBool False)]),
           (''progress_percentage'', JFloat 50)]) ''phases'' (JDict [])
     = Inr (JDict [(''phase1'', JBool True), (''phase2'', JBool True),
                   (''phase3'', JBool False), (''phase4'', JBool False)])
   \<and> first_incomplete
        (flag_of [(''phase1'', JBool True), (''phase2'', JBool True),
                  (''phase3'', JBool False), (''phase4'', JBool False)]) phase_labels
     = ''Phase 3: Generate product recommendations''
   \<and> (\<exists>r. get_session_status demo_env ''s''
            (start (store_of ''s'' [(''phase1'', demo_form), (''phase2'', demo_analysis)] True)) =
           (Inr r, \<lparr>world = store_of ''s'' [(''phase1'', demo_form), (''phase2'', demo_analysis)] True,
                    calls = [Call_session_exists ''s'', Call_get_session_status ''s'']\<rparr>)
         \<and> response_field ''next_phase'' (Inr r) =
             Some (JStr (first_incomplete
               (flag_of [(''phase1'', JBool True), (''phase2'', JBool True),
                         (''phase3'', JBool False), (''phase4'', JBool False)]) phase_labels)))"
proof -
  let ?s2 = "store_of ''s'' [(''phase1'', demo_form), (''phase2'', demo_analysis)] True"
  let ?flags = "[(''phase1'', JBool True), (''phase2'', JBool True),
                 (''phase3'', JBool False), (''phase4'', JBool False)]"
  let ?status = "JDict [(''phases'', JDict ?flags), (''progress_percentage'', JFloat 50)]"
  have a: "data_store_session_exists demo_env ''s'' ?s2 = (Inr True, ?s2)"
    by (simp add: demo_defs store_defs)
  have b: "data_store_get_session_status demo_env ''s'' ?s2 = (Inr ?status, ?s2)"
    by (simp add: demo_defs store_defs phase_names_def completed_count_def)
  have c: "py_get ?status ''phases'' (JDict []) = Inr (JDict ?flags)"
    by simp
  have d: "first_incomplete (flag_of ?flags) phase_labels
      = ''Phase 3: Generate product recommendations''"
    by (simp add: flag_of_def phase_labels_def)
  from a b c d status_next_phase_first_incomplete [OF a b c] show ?thesis
    by (intro conjI)
qed

text \<open>
  C6. In each of the four phase endpoints, a request whose save returned false ends in an
  error with status 500, never in a response: phases 2, 3 and 4 answer with their
  "Failed to save ..." detail, and phase 1 with that error as its catch-all hands it on.
\<close>

theorem failed_save_gives_500:
  "(Call_save_phase_data sid ph v (Inr False)
        \<in> set (calls (snd (phase1_form_analysis env form (start w)))) \<longrightarrow>
      fst (phase1_form_analysis env form (start w)) =
        Inl (HTTPException 500
              (''Phase 1 failed: '' @ str_HTTPException env 500 ''Failed to save form data'')))
   \<and> (Call_save_phase_data sid ph v (Inr False)
        \<in> set (calls (snd (phase2_image_analysis env session_id upload (start w)))) \<longrightarrow>
      fst (phase2_image_analysis env session_id upload (start w)) =
        Inl (HTTPException 500 ''Failed to save analysis data''))
   \<and> (Call_save_phase_data sid ph v (Inr False)
        \<in> set (calls (snd (phase3_product_recommendations env session_id (start w)))) \<longrightarrow>
      fst (phase3_product_recommendations env session_id (start w)) =
        Inl (HTTPException 500 ''Failed to save recommendations''))
   \<and> (Call_save_phase_data sid ph v (Inr False)
        \<in> set (calls (snd (phase4_routine_creation env session_id (start w)))) \<longrightarrow>
      fst (phase4_routine_creation env session_id (start w)) =
        Inl (HTTPException 500 ''Failed to save routine''))"
proof (intro conjI)
  show "Call_save_phase_data sid ph v (Inr False)
        \<in> set (calls (snd (phase1_form_analysis env form (start w)))) \<longrightarrow>
      fst (phase1_form_analysis env form (start w)) =
        Inl (HTTPException 500
              (''Phase 1 failed: '' @ str_HTTPException env 500 ''Failed to save form data''))"
    by (simp add: phase1_form_analysis_def run_defs split: prod.split sum.split exn.split)
next
  show "Call_save_phase_data sid ph v (Inr False)
        \<in> set (calls (snd (phase2_image_analysis env session_id upload (start w)))) \<longrightarrow>
      fst (phase2_image_analysis env session_id upload (start w)) =
        Inl (HTTPException 500 ''Failed to save analysis data'')"
    by (simp add: phase2_image_analysis_def run_defs split: prod.split sum.split exn.split)
next
  show "Call_save_phase_data sid ph v (Inr False)
        \<in> set (calls (snd (phase3_product_recommendations env session_id (start w)))) \<longrightarrow>
      fst (phase3_product_recommendations env session_id (start w)) =
        Inl (HTTPException 500 ''Failed to save recommendations'')"
    by (simp add: phase3_product_recommendations_def run_defs
        split: prod.split sum.split exn.split)
next
  show "Call_save_phase_data sid ph v (Inr False)
        \<in> set (calls (snd (phase4_routine_creation env session_id (start w)))) \<longrightarrow>
      fst (phase4_routine_creation env session_id (start w)) =
        Inl (HTTPException 500 ''Failed to save routine'')"
    by (simp add: phase4_routine_creation_def run_defs split: prod.split sum.split exn.split)
qed

text \<open>
  Witness for C6: each phase run against a store that does not persist, from a state in
  which its preconditions hold, so that the save is reached and returns false.
\<close>

theorem failed_save_gives_500_witness:
  "Call_save_phase_data ''s'' ''phase1'' demo_form (Inr False)
        \<in> set (calls (snd (phase1_form_analysis demo_env demo_form
                              (start (empty_store\<lparr>writable := False\<rparr>)))))
   \<and> fst (phase1_form_analysis demo_env demo_form (start (empty_store\<lparr>writable := False\<rparr>))) =
        Inl (HTTPException 500
              (''Phase 1 failed: '' @ str_HTTPException demo_env 500 ''Failed to save form data''))
   \<and> Call_save_phase_data ''s'' ''phase2''
        (JDict [(''ai_output'', JDict [(''skin_type'', JStr ''oily'')])]) (Inr False)
        \<in> set (calls (snd (phase2_image_analysis demo_env ''s''
                   \<lparr>content_type = Some ''image/png'', contents = ''img''\<rparr>
                   (start (store_of ''s'' [(''phase1'', demo_form)] False)))))
   \<and> fst (phase2_image_analysis demo_env ''s''
            \<lparr>content_type = Some ''image/png'', contents = ''img''\<rparr>
            (start (store_of ''s'' [(''phase1'', demo_form)] False))) =
        Inl (HTTPException 500 ''Failed to save analysis data'')
   \<and> Call_save_phase_data ''s'' ''phase3'' demo_recommendations (Inr False)
        \<in> set (calls (snd (phase3_product_recommendations demo_env ''s''
                   (start (store_of ''s''
                      [(''phase1'', demo_form), (''phase2'', demo_analysis)] False)))))
   \<and> fst (phase3_product_recommendations demo_env ''s''
            (start (store_of ''s'' [(''phase1'', demo_form), (''phase2'', demo_analysis)] False))) =
        Inl (HTTPException 500 ''Failed to save recommendations'')
   \<and> Call_save_phase_data ''s'' ''phase4'' (JDict [(''morning'', JList [JStr ''cleanser''])])
        (Inr False)
        \<in> set (calls (snd (phase4_routine_creation demo_env ''s''
                   (start (store_of ''s''
                      [(''phase1'', demo_form), (''phase3'', demo_recommendations)] False)))))
   \<and> fst (phase4_routine_creation demo_env ''s''
            (start (store_of ''s''
               [(''phase1'', demo_form), (''phase3'', demo_recommendations)] False))) =
        Inl (HTTPException 500 ''Failed to save routine'')"
proof -
  let ?up = "\<lparr>content_type = Some ''image/png'', contents = ''img''\<rparr>"
  let ?s0 = "empty_store\<lparr>writable := False\<rparr>"
  let ?s1 = "store_of ''s'' [(''phase1'', demo_form)] False"
  let ?s2 = "store_of ''s'' [(''phase1'', demo_form), (''phase2'', demo_analysis)] False"
  let ?s3 = "store_of ''s'' [(''phase1'', demo_form), (''phase3'', demo_recommendations)] False"
  have h1: "Call_save_phase_data ''s'' ''phase1'' demo_form (Inr False)
        \<in> set (calls (snd (phase1_form_analysis demo_env demo_form (start ?s0))))"
    by (simp add: phase1_form_analysis_def run_defs demo_defs store_defs fresh_id_def)
  have h2: "Call_save_phase_data ''s'' ''phase2''
        (JDict [(''ai_output'', JDict [(''skin_type'', JStr ''oily'')])]) (Inr False)
        \<in> set (calls (snd (phase2_image_analysis demo_env ''s'' ?up (start ?s1))))"
    by (simp add: phase2_image_analysis_def run_defs demo_defs store_defs
        content_type_startswith_def startswith_def analysis_json_of_def)
  have h3: "Call_save_phase_data ''s'' ''phase3'' demo_recommendations (Inr False)
        \<in> set (calls (snd (phase3_product_recommendations demo_env ''s'' (start ?s2))))"
    by (simp add: phase3_product_recommendations_def run_defs demo_defs store_defs)
  have h4: "Call_save_phase_data ''s'' ''phase4'' (JDict [(''morning'', JList [JStr ''cleanser''])])
        (Inr False)
        \<in> set (calls (snd (phase4_routine_creation demo_env ''s'' (start ?s3))))"
    by (simp add: phase4_routine_creation_def run_defs demo_defs store_defs)
  note c1 = failed_save_gives_500 [THEN conjunct1, rule_format, OF h1]
  note c2 = failed_save_gives_500 [THEN conjunct2, THEN conjunct1, rule_format, OF h2]
  note c3 = failed_save_gives_500
    [THEN conjunct2, THEN conjunct2, THEN conjunct1, rule_format, OF h3]
  note c4 = failed_save_gives_500
    [THEN conjunct2, THEN conjunct2, THEN conjunct2, rule_format, OF h4]
  from h1 c1 h2 c2 h3 c3 h4 c4 show ?thesis
    by (intro conjI)
qed


text \<open>
  C7. On the store of the specification, for every state of the store and every session
  in it, the status endpoint reports as progress percentage 100 times the number of phases
  whose payload is present, divided by 4: the router hands on the number that the store
  computed.
\<close>

theorem status_progress_percentage:
  assumes "sid \<in> set (sessions s)"
  shows "response_field ''progress_percentage''
           (fst (get_session_status (with_store e) sid (start s)))
         = Some (JFloat (100 * of_nat (completed_count s sid) / 4))
    \<and> completed_count s sid = card {p \<in> set phase_names. payloads s (sid, p) \<noteq> None}"
  using assms completed_count_card [of s sid]
  by (simp add: get_session_status_def run_defs store_defs next_phase_of_flags)

text \<open>Witness for C7: two of the four phases saved, 50 percent.\<close>

theorem status_progress_percentage_witness:
  "''s'' \<in> set (sessions (store_of ''s'' [(''phase1'', demo_form), (''phase2'', demo_analysis)] True))
   \<and> completed_count
        (store_of ''s'' [(''phase1'', demo_form), (''phase2'', demo_analysis)] True) ''s'' = 2
   \<and> response_field ''progress_percentage''
        (fst (get_session_status (with_store demo_env) ''s''
           (start (store_of ''s'' [(''phase1'', demo_form), (''phase2'', demo_analysis)] True))))
     = Some (JFloat 50)"
proof -
  let ?s2 = "store_of ''s'' [(''phase1'', demo_form), (''phase2'', demo_analysis)] True"
  have a: "''s'' \<in> set (sessions ?s2)"
    by (simp add: store_of_def)
  have b: "completed_count ?s2 ''s'' = 2"
    by (simp add: completed_count_def phase_names_def store_of_def)
  from a b status_progress_percentage [OF a, of demo_env, THEN conjunct1] show ?thesis
    by simp
qed

text \<open>
  C8. On the store of the specification, when the payload saved for a required
  predecessor phase is present but falsy (an empty JSON object, say), phase 3 and phase 4
  answer as if it were missing, with the 400 "Missing ..." error of that phase, and
  go no further than the two loads.
\<close>

theorem falsy_payload_treated_as_missing:
  "(payloads s (sid, ''phase1'') = Some v \<and> \<not> truthy v \<longrightarrow>
      phase3_product_recommendations (with_store e) sid (start s) =
        (Inl (HTTPException 400 ''Missing form data. Complete Phase 1 first.''),
         \<lparr>world = s,
          calls = [Call_load_phase_data sid ''phase1'', Call_load_phase_data sid ''phase2'']\<rparr>))
   \<and> (payloads s (sid, ''phase1'') = Some u \<and> truthy u \<and>
      payloads s (sid, ''phase2'') = Some v \<and> \<not> truthy v \<longrightarrow>
      phase3_product_recommendations (with_store e) sid (start s) =
        (Inl (HTTPException 400 ''Missing image analysis. Complete Phase 2 first.''),
         \<lparr>world = s,
          calls = [Call_load_phase_data sid ''phase1'', Call_load_phase_data sid ''phase2'']\<rparr>))
   \<and> (payloads s (sid, ''phase1'') = Some v \<and> \<not> truthy v \<longrightarrow>
      phase4_routine_creation (with_store e) sid (start s) =
        (Inl (HTTPException 400 ''Missing form data. Complete Phase 1 first.''),
         \<lparr>world = s,
          calls = [Call_load_phase_data sid ''phase1'', Call_load_phase_data sid ''phase3'']\<rparr>))
   \<and> (payloads s (sid, ''phase1'') = Some u \<and> truthy u \<and>
      payloads s (sid, ''phase3'') = Some v \<and> \<not> truthy v \<longrightarrow>
      phase4_routine_creation (with_store e) sid (start s) =
        (Inl (HTTPException 400 ''Missing product recommendations. Complete Phase 3 first.''),
         \<lparr>world = s,
          calls = [Call_load_phase_data sid ''phase1'', Call_load_phase_data sid ''phase3'']\<rparr>))"
  by (simp add: phase3_product_recommendations_def phase4_routine_creation_def run_defs store_defs)

text \<open>
  Witness for C8: a session whose form was saved as \<open>{}\<close>, and a session with a proper
  form whose analysis and recommendations were saved as \<open>{}\<close>.
\<close>

theorem falsy_payload_treated_as_missing_witness:
  "payloads (store_of ''s'' [(''phase1'', JDict []), (''phase2'', demo_analysis),
                            (''phase3'', demo_recommendations)] True) (''s'', ''phase1'')
     = Some (JDict [])
   \<and> \<not> truthy (JDict [])
   \<and> phase3_product_recommendations (with_store demo_env) ''s''
        (start (store_of ''s'' [(''phase1'', JDict []), (''phase2'', demo_analysis),
                               (''phase3'', demo_recommendations)] True)) =
        (Inl (HTTPException 400 ''Missing form data. Complete Phase 1 first.''),
         \<lparr>world = store_of ''s'' [(''phase1'', JDict []), (''phase2'', demo_analysis),
                                  (''phase3'', demo_recommendations)] True,
          calls = [Call_load_phase_data ''s'' ''phase1'', Call_load_phase_data ''s'' ''phase2'']\<rparr>)
   \<and> phase4_routine_creation (with_store demo_env) ''s''
        (start (store_of ''s'' [(''phase1'', JDict []), (''phase2'', demo_analysis),
                               (''phase3'', demo_recommendations)] True)) =
        (Inl (HTTPException 400 ''Missing form data. Complete Phase 1 first.''),
         \<lparr>world = store_of ''s'' [(''phase1'', JDict []), (''phase2'', demo_analysis),
                                  (''phase3'', demo_recommendations)] True,
          calls = [Call_load_phase_data ''s'' ''phase1'', Call_load_phase_data ''s'' ''phase3'']\<rparr>)
   \<and> payloads (store_of ''s'' [(''phase1'', demo_form), (''phase2'', JDict []),
                              (''phase3'', JDict [])] True) (''s'', ''phase1'')
     = Some demo_form
   \<and> truthy demo_form
   \<and> payloads (store_of ''s'' [(''phase1'', demo_form), (''phase2'', JDict []),
                              (''phase3'', JDict [])] True) (''s'', ''phase2'')
     = Some (JDict [])
   \<and> payloads (store_of ''s'' [(''phase1'', demo_form), (''phase2'', JDict []),
                              (''phase3'', JDict [])] True) (''s'', ''phase3'')
     = Some (JDict [])
   \<and> phase3_product_recommendations (with_store demo_env) ''s''
        (start (store_of ''s'' [(''phase1'', demo_form), (''phase2'', JDict []),
                               (''phase3'', JDict [])] True)) =
        (Inl (HTTPException 400 ''Missing image analysis. Complete Phase 2 first.''),
         \<lparr>world = store_of ''s'' [(''phase1'', demo_form), (''phase2'', JDict []),
                                  (''phase3'', JDict [])] True,
          calls = [Call_load_phase_data ''s'' ''phase1'', Call_load_phase_data ''s'' ''phase2'']\<rparr>)
   \<and> phase4_routine_creation (with_store demo_env) ''s''
        (start (store_of ''s'' [(''phase1'', demo_form), (''phase2'', JDict []),
                               (''phase3'', JDict [])] True)) =
        (Inl (HTTPException 400 ''Missing product recommendations. Complete Phase 3 first.''),
         \<lparr>world = store_of ''s'' [(''phase1'', demo_form), (''phase2'', JDict []),
                                  (''phase3'', JDict [])] True,
          calls = [Call_load_phase_data ''s'' ''phase1'', Call_load_phase_data ''s'' ''phase3'']\<rparr>)"
proof -
  let ?sa = "store_of ''s'' [(''phase1'', JDict []), (''phase2'', demo_analysis),
                            (''phase3'', demo_recommendations)] True"
  let ?sb = "store_of ''s'' [(''phase1'', demo_form), (''phase2'', JDict []),
                            (''phase3'', JDict [])] True"
  have a: "payloads ?sa (''s'', ''phase1'') = Some (JDict [])"
    by (simp add: store_of_def)
  have b: "payloads ?sb (''s'', ''phase1'') = Some demo_form"
    "payloads ?sb (''s'', ''phase2'') = Some (JDict [])"
    "payloads ?sb (''s'', ''phase3'') = Some (JDict [])"
    by (simp_all add: store_of_def)
  have t: "\<not> truthy (JDict [])" "truthy demo_form"
    by (simp_all add: demo_form_def)
  note inst_a = falsy_payload_treated_as_missing
    [where s = ?sa and sid = "''s''" and v = "JDict []" and e = demo_env]
  note inst_b = falsy_payload_treated_as_missing
    [where s = ?sb and sid = "''s''" and u = demo_form and v = "JDict []" and e = demo_env]
  show ?thesis
    using a b t inst_a inst_b by simp
qed

text \<open>
  C9. For a session that exists, an upload without a declared content type makes the
  prefix check raise an attribute error, which the catch-all answers with the 500
  "Phase 2 failed: ..."; the 400 "File must be an image" with nothing called after
  \<^verbatim>\<open>session_exists\<close> is the outcome exactly when a content type is declared and does not
  start with "image/".
\<close>

theorem phase2_missing_content_type_gives_500:
  assumes "data_store_session_exists env sid w = (Inr True, w')"
  shows "(content_type upload = None \<longrightarrow>
      phase2_image_analysis env sid upload (start w) =
        (Inl (HTTPException 500
           (''Phase 2 failed: '' @ quoted ''NoneType'' @ '' object has no attribute ''
              @ quoted ''startswith'')),
         \<lparr>world = w', calls = [Call_session_exists sid]\<rparr>))
    \<and> (phase2_image_analysis env sid upload (start w) =
        (Inl (HTTPException 400 ''File must be an image (JPEG, PNG, etc.)''),
         \<lparr>world = w', calls = [Call_session_exists sid]\<rparr>)
       \<longleftrightarrow> (\<exists>ct. content_type upload = Some ct \<and> \<not> startswith ct ''image/''))"
  using assms
  by (auto simp add: phase2_image_analysis_def run_defs content_type_startswith_def
      AttributeError_def split: outcome_splits)

theorem phase2_missing_content_type_gives_500_witness:
  "data_store_session_exists demo_env ''s'' (store_of ''s'' [(''phase1'', demo_form)] True)
     = (Inr True, store_of ''s'' [(''phase1'', demo_form)] True)
   \<and> content_type \<lparr>content_type = None, contents = ''img''\<rparr> = None
   \<and> phase2_image_analysis demo_env ''s'' \<lparr>content_type = None, contents = ''img''\<rparr>
        (start (store_of ''s'' [(''phase1'', demo_form)] True)) =
        (Inl (HTTPException 500
           (''Phase 2 failed: '' @ quoted ''NoneType'' @ '' object has no attribute ''
              @ quoted ''startswith'')),
         \<lparr>world = store_of ''s'' [(''phase1'', demo_form)] True,
          calls = [Call_session_exists ''s'']\<rparr>)"
proof -
  let ?s1 = "store_of ''s'' [(''phase1'', demo_form)] True"
  let ?up = "\<lparr>content_type = None, contents = ''img''\<rparr>"
  have a: "data_store_session_exists demo_env ''s'' ?s1 = (Inr True, ?s1)"
    by (simp add: demo_defs store_defs)
  have b: "content_type ?up = None"
    by simp
  from a b phase2_missing_content_type_gives_500 [OF a, of ?up, THEN conjunct1, rule_format, OF b]
  show ?thesis
    by (intro conjI)
qed

text \<open>
  C10. On the store of the specification: when the phase 1 service accepts the form and
  the store does not persist, phase 1 answers with a 500, and the session it created
  before the save stays in the store: the new id did not exist before the call and
  exists after it. The request made no call after the failed save.
\<close>

theorem phase1_not_atomic:
  assumes "phase1_service_submit_form e form s = (Inr res, s1)"
    and "\<not> writable s1"
  shows "phase1_form_analysis (with_store e) form (start s) =
      (Inl (HTTPException 500
             (''Phase 1 failed: '' @ str_HTTPException e 500 ''Failed to save form data'')),
       \<lparr>world = s1\<lparr>sessions := fresh_id (sessions s1) # sessions s1\<rparr>,
        calls = [Call_submit_form form, Call_create_session,
                 Call_save_phase_data (fresh_id (sessions s1)) ''phase1''
                   (form_dict_of (stored_data res)) (Inr False)]\<rparr>)
    \<and> fst (store_session_exists (fresh_id (sessions s1)) s1) = Inr False
    \<and> fst (store_session_exists (fresh_id (sessions s1))
             (world (snd (phase1_form_analysis (with_store e) form (start s))))) = Inr True"
  using assms fresh_id_fresh [of "sessions s1"]
  by (simp add: phase1_form_analysis_def run_defs store_defs)

theorem phase1_not_atomic_witness:
  "phase1_service_submit_form demo_env demo_form (empty_store\<lparr>writable := False\<rparr>)
     = (Inr \<lparr>stored_data = Plain demo_form, form_index = JInt 0\<rparr>,
        empty_store\<lparr>writable := False\<rparr>)
   \<and> \<not> writable (empty_store\<lparr>writable := False\<rparr>)
   \<and> fst (phase1_form_analysis (with_store demo_env) demo_form
            (start (empty_store\<lparr>writable := False\<rparr>)))
     = Inl (HTTPException 500 ''Phase 1 failed: Failed to save form data'')
   \<and> fst (store_session_exists ''s'' (empty_store\<lparr>writable := False\<rparr>)) = Inr False
   \<and> fst (store_session_exists ''s''
            (world (snd (phase1_form_analysis (with_store demo_env) demo_form
                           (start (empty_store\<lparr>writable := False\<rparr>)))))) = Inr True"
proof -
  let ?s0 = "empty_store\<lparr>writable := False\<rparr>"
  have a: "phase1_service_submit_form demo_env demo_form ?s0
     = (Inr \<lparr>stored_data = Plain demo_form, form_index = JInt 0\<rparr>, ?s0)"
    by (simp add: demo_env_def)
  have b: "\<not> writable ?s0"
    by simp
  have c: "str_HTTPException demo_env 500 ''Failed to save form data'' = ''Failed to save form data''"
    by (simp add: demo_env_def)
  from a b phase1_not_atomic [OF a b] show ?thesis
    by (simp add: c fresh_id_def empty_store_def store_session_exists_def)
qed

end
